theory Spec2Isabelle
  imports Complex_Main "HOL-Library.AList"
begin

section \<open>JavaScript values used by the timer service\<close>

text \<open>
  A JavaScript number is an IEEE double: a finite value, one of the two infinities, or
  NaN. The finite values are embedded in the reals; comparison and \<open>Math.floor\<close> are
  exact on them. Sums and differences are the exact real ones: the rounding of a double
  result that is not representable (beyond \<open>2^53\<close> for whole numbers) is not modelled,
  and no statement below depends on the value of a sum or difference except at small
  whole numbers. Every comparison with NaN is false, as in the language.
\<close>

datatype number = Fin real | PosInf | NegInf | NaN

fun lt :: "number \<Rightarrow> number \<Rightarrow> bool" where
  "lt NaN _ = False"
| "lt _ NaN = False"
| "lt (Fin a) (Fin b) = (a < b)"
| "lt (Fin _) PosInf = True"
| "lt (Fin _) NegInf = False"
| "lt PosInf _ = False"
| "lt NegInf NegInf = False"
| "lt NegInf _ = True"

text \<open>The operator \<open>a >= b\<close>: false when either side is NaN.\<close>

definition ge :: "number \<Rightarrow> number \<Rightarrow> bool" where
  "ge a b = (a \<noteq> NaN \<and> b \<noteq> NaN \<and> \<not> lt a b)"

fun add :: "number \<Rightarrow> number \<Rightarrow> number" where
  "add NaN _ = NaN"
| "add _ NaN = NaN"
| "add (Fin a) (Fin b) = Fin (a + b)"
| "add PosInf NegInf = NaN"
| "add NegInf PosInf = NaN"
| "add PosInf _ = PosInf"
| "add _ PosInf = PosInf"
| "add NegInf _ = NegInf"
| "add _ NegInf = NegInf"

fun sub :: "number \<Rightarrow> number \<Rightarrow> number" where
  "sub NaN _ = NaN"
| "sub _ NaN = NaN"
| "sub (Fin a) (Fin b) = Fin (a - b)"
| "sub PosInf PosInf = NaN"
| "sub NegInf NegInf = NaN"
| "sub PosInf _ = PosInf"
| "sub _ NegInf = PosInf"
| "sub NegInf _ = NegInf"
| "sub _ PosInf = NegInf"

fun Math_floor :: "number \<Rightarrow> number" where
  "Math_floor (Fin r) = Fin (of_int \<lfloor>r\<rfloor>)"
| "Math_floor n = n"

definition Math_max :: "number \<Rightarrow> number \<Rightarrow> number" where
  "Math_max a b = (if a = NaN \<or> b = NaN then NaN else if lt a b then b else a)"

fun Number_isFinite :: "number \<Rightarrow> bool" where
  "Number_isFinite (Fin _) = True"
| "Number_isFinite _ = False"

text \<open>\<open>Date.now()\<close> returns a whole number of milliseconds.\<close>

definition ms :: "int \<Rightarrow> number" where
  "ms t = Fin (of_int t)"

text \<open>
  Values that arrive as JSON; an object is the list of its properties, each name once.
  A property that is absent reads as \<open>undefined\<close>, which is \<open>None\<close> of an optional
  value. Text is the list of its UTF-8 bytes.
\<close>

datatype json =
    JNull
  | JBool bool
  | JNum number
  | JStr string
  | JArr "json list"
  | JObj "(string \<times> json) list"

text \<open>
  What a statement completes with: normally, or by throwing. A thrown value is
  represented by the message the handlers read from it
  (\<open>e instanceof Error ? e.message : String(e)\<close>); the state reached is kept in both cases.
\<close>

datatype 's completion = Normal 's | Throw string 's

definition then_do :: "'s completion \<Rightarrow> ('s \<Rightarrow> 's completion) \<Rightarrow> 's completion" where
  "then_do c f = (case c of Normal s \<Rightarrow> f s | Throw e s \<Rightarrow> Throw e s)"

definition try_catch :: "'s completion \<Rightarrow> (string \<Rightarrow> 's \<Rightarrow> 's completion) \<Rightarrow> 's completion" where
  "try_catch body handler = (case body of Normal s \<Rightarrow> Normal s | Throw e s \<Rightarrow> handler e s)"

definition finally_do :: "'s completion \<Rightarrow> ('s \<Rightarrow> 's) \<Rightarrow> 's completion" where
  "finally_do c f = (case c of Normal s \<Rightarrow> Normal (f s) | Throw e s \<Rightarrow> Throw e (f s))"

text \<open>
  The built-ins of the runtime that the service calls and whose results it does not
  control. \<open>JSON_parse\<close> is \<open>None\<close> where \<open>JSON.parse\<close> throws; \<open>JSON_stringify\<close>
  and \<open>String_of\<close> (the conversion \<open>String(v)\<close> of a value that is not a string) give
  \<open>Inl\<close> of the message where they throw; \<open>property_error\<close> is the message of the
  TypeError raised by reading the named property of the given value, \<open>undefined\<close>
  (\<open>None\<close>) or \<open>null\<close>.
\<close>

record runtime =
  JSON_parse :: "string \<Rightarrow> json option"
  JSON_stringify :: "json \<Rightarrow> string + string"
  String_of :: "json \<Rightarrow> string + string"
  trim :: "string \<Rightarrow> string"
  property_error :: "json option \<Rightarrow> string \<Rightarrow> string"

section \<open>The scheduler (timerScheduler.ts)\<close>

datatype task_kind = Log | Notify

record TimerTask =
  kind :: task_kind
  message :: string
  data :: "json option"

datatype TimerMode = Once | Interval

datatype TimerCreateInput =
    CreateOnce number TimerTask
  | CreateInterval number "number option" TimerTask

record TimerInfo =
  timer_id :: string
  mode :: TimerMode
  createdAt :: number
  nextRunAt :: number
  everyMs :: "number option"
  lastRunAt :: "number option"
  task :: TimerTask

datatype TimerEvent =
    TimerCreated TimerInfo
  | TimerCanceled string bool
  | TimerFired TimerInfo number
  | TimerError "string option" string
  | TimerList "TimerInfo list"

record InternalTimer =
  info :: TimerInfo
  handle :: nat

text \<open>
  The three closures the scheduler hands to the host: the hook of a one-shot timer,
  the hook of an interval timer's first firing, and the hook of its later firings.
  The last two capture the clamped \<open>everyMs\<close>. A host timer is a pending
  \<open>setTimeout\<close> (closure, delay) or a \<open>setInterval\<close> (closure, period).
\<close>

datatype hook = OnceHook string | IntervalFirstHook string number | IntervalTickHook string number

datatype host_timer = Timeout hook number | Repeating hook number

text \<open>
  The state of one scheduler: the map \<open>timers\<close> in insertion order, the host timers
  that are pending with the next handle the host gives out, the events emitted so far
  (every listener receives each of them synchronously, in this order), and the lines
  written to the console.
\<close>

record scheduler =
  timers :: "(string \<times> InternalTimer) list"
  pending :: "(nat \<times> host_timer) list"
  next_handle :: nat
  emitted :: "TimerEvent list"
  console :: "string list"

definition emit :: "TimerEvent \<Rightarrow> scheduler \<Rightarrow> scheduler" where
  "emit event w = w\<lparr>emitted := emitted w @ [event]\<rparr>"

definition timers_get :: "scheduler \<Rightarrow> string \<Rightarrow> InternalTimer option" where
  "timers_get w k = map_of (timers w) k"

definition timers_set :: "string \<Rightarrow> InternalTimer \<Rightarrow> scheduler \<Rightarrow> scheduler" where
  "timers_set k v w = w\<lparr>timers := AList.update k v (timers w)\<rparr>"

definition timers_delete :: "string \<Rightarrow> scheduler \<Rightarrow> scheduler" where
  "timers_delete k w = w\<lparr>timers := AList.delete k (timers w)\<rparr>"

definition setTimeout :: "hook \<Rightarrow> number \<Rightarrow> scheduler \<Rightarrow> nat \<times> scheduler" where
  "setTimeout cb delay w =
     (next_handle w,
      w\<lparr>pending := pending w @ [(next_handle w, Timeout cb delay)],
        next_handle := Suc (next_handle w)\<rparr>)"

definition setInterval :: "hook \<Rightarrow> number \<Rightarrow> scheduler \<Rightarrow> nat \<times> scheduler" where
  "setInterval cb period w =
     (next_handle w,
      w\<lparr>pending := pending w @ [(next_handle w, Repeating cb period)],
        next_handle := Suc (next_handle w)\<rparr>)"

text \<open>\<open>clearTimeout\<close> and \<open>clearInterval\<close> both drop the host timer of a handle.\<close>

definition clearTimer :: "nat \<Rightarrow> scheduler \<Rightarrow> scheduler" where
  "clearTimer h w = w\<lparr>pending := AList.delete h (pending w)\<rparr>"

definition clampMin :: "number \<Rightarrow> number \<Rightarrow> number" where
  "clampMin v lo = (if lt v lo then lo else v)"

definition console_log :: "string \<Rightarrow> scheduler \<Rightarrow> scheduler" where
  "console_log line w = w\<lparr>console := console w @ [line]\<rparr>"

definition runTask :: "runtime \<Rightarrow> TimerTask \<Rightarrow> scheduler \<Rightarrow> scheduler completion" where
  "runTask rt t w =
     (if kind t = Log then
        (case data t of
           None \<Rightarrow> Normal (console_log (''[timer] '' @ message t) w)
         | Some d \<Rightarrow>
             (case JSON_stringify rt d of
                Inl e \<Rightarrow> Throw e w
              | Inr s \<Rightarrow> Normal (console_log (''[timer] '' @ message t @ '' data='' @ s) w)))
      else Normal w)"

definition createOnceTimer ::
  "string \<Rightarrow> int \<Rightarrow> int \<Rightarrow> number \<Rightarrow> TimerTask \<Rightarrow> scheduler \<Rightarrow> TimerInfo \<times> scheduler" where
  "createOnceTimer ident t_created t_delay runAt tk w =
     (let created = ms t_created;
          next_run = clampMin runAt created;
          inf = \<lparr>timer_id = ident, mode = Once, createdAt = created, nextRunAt = next_run,
                 everyMs = None, lastRunAt = None, task = tk\<rparr>;
          delay = clampMin (sub next_run (ms t_delay)) (Fin 0);
          (h, w1) = setTimeout (OnceHook ident) delay w;
          w2 = timers_set ident \<lparr>info = inf, handle = h\<rparr> w1
      in (inf, emit (TimerCreated inf) w2))"

definition createIntervalTimer ::
  "string \<Rightarrow> int \<Rightarrow> int \<Rightarrow> number \<Rightarrow> number option \<Rightarrow> TimerTask \<Rightarrow> scheduler
     \<Rightarrow> TimerInfo \<times> scheduler" where
  "createIntervalTimer ident t_created t_delay every_in start_in tk w =
     (let created = ms t_created;
          every = clampMin (Math_floor every_in) (Fin 50);
          startAt = (case start_in of None \<Rightarrow> created | Some s \<Rightarrow> s);
          inf = \<lparr>timer_id = ident, mode = Interval, createdAt = created,
                 nextRunAt = clampMin startAt created,
                 everyMs = Some every, lastRunAt = None, task = tk\<rparr>;
          firstDelay = clampMin (sub (nextRunAt inf) (ms t_delay)) (Fin 0);
          (h, w1) = setTimeout (IntervalFirstHook ident every) firstDelay w;
          w2 = timers_set ident \<lparr>info = inf, handle = h\<rparr> w1
      in (inf, emit (TimerCreated inf) w2))"

definition createTimer ::
  "string \<Rightarrow> int \<Rightarrow> int \<Rightarrow> TimerCreateInput \<Rightarrow> scheduler \<Rightarrow> TimerInfo \<times> scheduler" where
  "createTimer ident t_created t_delay input w =
     (case input of
        CreateOnce runAt tk \<Rightarrow> createOnceTimer ident t_created t_delay runAt tk w
      | CreateInterval every start tk \<Rightarrow>
          createIntervalTimer ident t_created t_delay every start tk w)"

text \<open>
  The hook of a one-shot timer, run by the host at time \<open>t\<close>. The writes to
  \<open>existing.info\<close> change the object held in the map.
\<close>

definition onceHook :: "runtime \<Rightarrow> string \<Rightarrow> int \<Rightarrow> scheduler \<Rightarrow> scheduler completion" where
  "onceHook rt ident t w =
     (case timers_get w ident of
        None \<Rightarrow> Normal w
      | Some existing \<Rightarrow>
          (let firedAt = ms t;
               inf = (info existing)\<lparr>lastRunAt := Some firedAt, nextRunAt := firedAt\<rparr>;
               w1 = timers_set ident (existing\<lparr>info := inf\<rparr>) w
           in finally_do
                (try_catch
                   (then_do (runTask rt (task inf) w1)
                      (\<lambda>s. Normal (emit (TimerFired inf firedAt) s)))
                   (\<lambda>e s. Normal (emit (TimerError (Some ident) e) s)))
                (timers_delete ident)))"

text \<open>The hook of an interval timer's later firings (the \<open>setInterval\<close> callback).\<close>

definition intervalTickHook ::
  "runtime \<Rightarrow> string \<Rightarrow> number \<Rightarrow> int \<Rightarrow> scheduler \<Rightarrow> scheduler completion" where
  "intervalTickHook rt ident every t w =
     (case timers_get w ident of
        None \<Rightarrow> Normal w
      | Some current \<Rightarrow>
          (let firedAt = ms t;
               inf = (info current)\<lparr>lastRunAt := Some firedAt, nextRunAt := add firedAt every\<rparr>;
               w1 = timers_set ident (current\<lparr>info := inf\<rparr>) w
           in try_catch
                (then_do (runTask rt (task inf) w1)
                   (\<lambda>s. Normal (emit (TimerFired inf firedAt) s)))
                (\<lambda>e s. Normal (emit (TimerError (Some ident) e) s))))"

text \<open>
  The hook of an interval timer's first firing (the \<open>setTimeout\<close> callback): it starts
  the \<open>setInterval\<close>, stores its handle with the same \<open>info\<close> object, and fires.
\<close>

definition intervalFirstHook ::
  "runtime \<Rightarrow> string \<Rightarrow> number \<Rightarrow> int \<Rightarrow> scheduler \<Rightarrow> scheduler completion" where
  "intervalFirstHook rt ident every t w =
     (case timers_get w ident of
        None \<Rightarrow> Normal w
      | Some existing \<Rightarrow>
          (let (intervalHandle, w1) = setInterval (IntervalTickHook ident every) every w;
               w2 = timers_set ident \<lparr>info = info existing, handle = intervalHandle\<rparr> w1;
               firedAt = ms t;
               inf = (info existing)\<lparr>lastRunAt := Some firedAt, nextRunAt := add firedAt every\<rparr>;
               w3 = timers_set ident \<lparr>info = inf, handle = intervalHandle\<rparr> w2
           in try_catch
                (then_do (runTask rt (task inf) w3)
                   (\<lambda>s. Normal (emit (TimerFired inf firedAt) s)))
                (\<lambda>e s. Normal (emit (TimerError (Some ident) e) s))))"

definition cancelTimer :: "string \<Rightarrow> scheduler \<Rightarrow> bool \<times> scheduler" where
  "cancelTimer ident w =
     (case timers_get w ident of
        None \<Rightarrow> (False, emit (TimerCanceled ident False) w)
      | Some existing \<Rightarrow>
          (True,
           emit (TimerCanceled ident True)
             (timers_delete ident (clearTimer (handle existing) (clearTimer (handle existing) w)))))"

definition listTimers :: "scheduler \<Rightarrow> TimerInfo list" where
  "listTimers w = map (\<lambda>(k, t). info t) (timers w)"

definition createTimerScheduler :: scheduler where
  "createTimerScheduler =
     \<lparr>timers = [], pending = [], next_handle = 0, emitted = [], console = []\<rparr>"

text \<open>
  The host runs the closure of a pending host timer. A \<open>setTimeout\<close> is spent when it
  fires; a \<open>setInterval\<close> stays pending until it is cleared.
\<close>

definition run_hook :: "runtime \<Rightarrow> hook \<Rightarrow> int \<Rightarrow> scheduler \<Rightarrow> scheduler completion" where
  "run_hook rt cb t w =
     (case cb of
        OnceHook ident \<Rightarrow> onceHook rt ident t w
      | IntervalFirstHook ident every \<Rightarrow> intervalFirstHook rt ident every t w
      | IntervalTickHook ident every \<Rightarrow> intervalTickHook rt ident every t w)"

definition fire :: "runtime \<Rightarrow> nat \<Rightarrow> int \<Rightarrow> scheduler \<Rightarrow> scheduler completion" where
  "fire rt h t w =
     (case map_of (pending w) h of
        None \<Rightarrow> Normal w
      | Some (Timeout cb delay) \<Rightarrow> run_hook rt cb t (clearTimer h w)
      | Some (Repeating cb period) \<Rightarrow> run_hook rt cb t w)"

definition state_of :: "'s completion \<Rightarrow> 's" where
  "state_of c = (case c of Normal s \<Rightarrow> s | Throw e s \<Rightarrow> s)"

section \<open>The connection manager (timerWsServer.ts)\<close>

datatype WsServerToClient =
    WsHello number string nat
  | WsPong "string option"
  | WsError string "string option"
  | WsTimerCreated TimerInfo
  | WsTimerCanceled string bool
  | WsTimerFired TimerInfo number
  | WsTimerList "TimerInfo list"
  | WsTimerError "string option" string

text \<open>
  A request as \<open>parseClientMessage\<close> returns it. The \<open>timer\<close> of a create request is
  whatever object the client sent: the cast to \<open>TimerCreateInput\<close> checks nothing.
\<close>

datatype WsClientToServer =
    Ping "string option"
  | ReqTimerList
  | ReqTimerCancel string
  | ReqTimerCreate json

text \<open>
  The server's state: its scheduler, the set \<open>clients\<close> in insertion order, which
  sockets have \<open>readyState\<close> OPEN, and every message written to a socket so far.
\<close>

record server =
  sched :: scheduler
  clients :: "nat list"
  is_open :: "nat \<Rightarrow> bool"
  outbox :: "(nat \<times> WsServerToClient) list"

definition send :: "nat \<Rightarrow> WsServerToClient \<Rightarrow> server \<Rightarrow> server" where
  "send ws msg s = (if is_open s ws then s\<lparr>outbox := outbox s @ [(ws, msg)]\<rparr> else s)"

definition broadcast :: "WsServerToClient \<Rightarrow> server \<Rightarrow> server" where
  "broadcast msg s = fold (\<lambda>ws. send ws msg) (clients s) s"

fun mapTimerEvent :: "TimerEvent \<Rightarrow> WsServerToClient" where
  "mapTimerEvent (TimerCreated t) = WsTimerCreated t"
| "mapTimerEvent (TimerCanceled i ok) = WsTimerCanceled i ok"
| "mapTimerEvent (TimerFired t firedAt) = WsTimerFired t firedAt"
| "mapTimerEvent (TimerList ts) = WsTimerList ts"
| "mapTimerEvent (TimerError i m) = WsTimerError i m"

text \<open>
  A call into the scheduler from the server. The listener registered with
  \<open>scheduler.onEvent\<close> broadcasts every event the call emits, in the order emitted.
\<close>

definition with_scheduler :: "(scheduler \<Rightarrow> scheduler) \<Rightarrow> server \<Rightarrow> server" where
  "with_scheduler f s =
     (let w = f (sched s);
          fresh = drop (length (emitted (sched s))) (emitted w)
      in fold (\<lambda>event. broadcast (mapTimerEvent event)) fresh (s\<lparr>sched := w\<rparr>))"

text \<open>
  Reading a property of a parsed value: an object has the properties it was parsed
  with; of the properties read here, an array, a string, a number and a boolean have none.
\<close>

fun property :: "json \<Rightarrow> string \<Rightarrow> json option" where
  "property (JObj kvs) k = map_of kvs k"
| "property _ k = None"

text \<open>Truthy and \<open>typeof v === 'object'\<close>: an object or an array.\<close>

fun is_object :: "json \<Rightarrow> bool" where
  "is_object (JObj _) = True"
| "is_object (JArr _) = True"
| "is_object _ = False"

definition parseClientMessage :: "runtime \<Rightarrow> string \<Rightarrow> WsClientToServer option" where
  "parseClientMessage rt text =
     (let trimmed = trim rt text in
      if trimmed = [] then None
      else
        (case JSON_parse rt trimmed of
           None \<Rightarrow> None
         | Some parsed \<Rightarrow>
             if \<not> is_object parsed then None
             else
               (case property parsed ''type'' of
                  Some (JStr ty) \<Rightarrow>
                    if ty = ''ping'' then
                      Some (Ping (case property parsed ''id'' of Some (JStr i) \<Rightarrow> Some i | _ \<Rightarrow> None))
                    else if ty = ''timer.list'' then Some ReqTimerList
                    else if ty = ''timer.cancel'' then
                      (case property parsed ''id'' of
                         Some (JStr i) \<Rightarrow> if i = [] then None else Some (ReqTimerCancel i)
                       | _ \<Rightarrow> None)
                    else if ty = ''timer.create'' then
                      (case property parsed ''timer'' of
                         Some tm \<Rightarrow> if is_object tm then Some (ReqTimerCreate tm) else None
                       | None \<Rightarrow> None)
                    else None
                | _ \<Rightarrow> None)))"

text \<open>\<open>String(task.message ?? '')\<close>.\<close>

definition message_text :: "runtime \<Rightarrow> json option \<Rightarrow> string + string" where
  "message_text rt v =
     (case v of
        None \<Rightarrow> Inr []
      | Some JNull \<Rightarrow> Inr []
      | Some (JStr m) \<Rightarrow> Inr m
      | Some j \<Rightarrow> String_of rt j)"

definition normalizeTask :: "runtime \<Rightarrow> json option \<Rightarrow> string + TimerTask" where
  "normalizeTask rt tk =
     (case tk of
        None \<Rightarrow> Inl (property_error rt None ''type'')
      | Some JNull \<Rightarrow> Inl (property_error rt (Some JNull) ''type'')
      | Some t \<Rightarrow>
          (case message_text rt (property t ''message'') of
             Inl e \<Rightarrow> Inl e
           | Inr m \<Rightarrow>
               Inr \<lparr>kind = (if property t ''type'' = Some (JStr ''log'') then Log else Notify),
                    message = m, data = property t ''data''\<rparr>))"

definition normalize_runAt :: "int \<Rightarrow> json option \<Rightarrow> number" where
  "normalize_runAt now v =
     (case v of
        Some (JNum n) \<Rightarrow> if Number_isFinite n then Math_floor n else ms now
      | _ \<Rightarrow> ms now)"

definition normalize_everyMs :: "json option \<Rightarrow> number" where
  "normalize_everyMs v =
     (case v of
        Some (JNum n) \<Rightarrow> if Number_isFinite n then Math_max (Fin 50) (Math_floor n) else Fin 1000
      | _ \<Rightarrow> Fin 1000)"

definition normalize_startAt :: "json option \<Rightarrow> number option" where
  "normalize_startAt v =
     (case v of
        Some (JNum n) \<Rightarrow> if Number_isFinite n then Some (Math_floor n) else None
      | _ \<Rightarrow> None)"

definition normalizeTimerCreateInput :: "runtime \<Rightarrow> int \<Rightarrow> json \<Rightarrow> string + TimerCreateInput" where
  "normalizeTimerCreateInput rt now input =
     (if input = JNull then Inl (property_error rt (Some JNull) ''mode'')
      else if property input ''mode'' = Some (JStr ''once'') then
        (case normalizeTask rt (property input ''task'') of
           Inl e \<Rightarrow> Inl e
         | Inr tk \<Rightarrow> Inr (CreateOnce (normalize_runAt now (property input ''runAt'')) tk))
      else
        (case normalizeTask rt (property input ''task'') of
           Inl e \<Rightarrow> Inl e
         | Inr tk \<Rightarrow>
             Inr (CreateInterval (normalize_everyMs (property input ''everyMs''))
                    (normalize_startAt (property input ''startAt'')) tk)))"

text \<open>
  What one request reads from its environment: the id \<open>createId()\<close> returns and the
  clock at each \<open>Date.now()\<close>, in the order of the calls.
\<close>

record readings =
  fresh_id :: string
  now_normalize :: int
  now_created :: int
  now_delay :: int

definition handleRequest ::
  "runtime \<Rightarrow> readings \<Rightarrow> nat \<Rightarrow> WsClientToServer \<Rightarrow> server \<Rightarrow> server completion" where
  "handleRequest rt env ws request s =
     (case request of
        Ping i \<Rightarrow> Normal (send ws (WsPong i) s)
      | ReqTimerList \<Rightarrow> Normal (send ws (WsTimerList (listTimers (sched s))) s)
      | ReqTimerCancel i \<Rightarrow> Normal (with_scheduler (\<lambda>w. snd (cancelTimer i w)) s)
      | ReqTimerCreate tm \<Rightarrow>
          (case normalizeTimerCreateInput rt (now_normalize env) tm of
             Inl e \<Rightarrow> Throw e s
           | Inr normalized \<Rightarrow>
               Normal (with_scheduler
                 (\<lambda>w. snd (createTimer (fresh_id env) (now_created env) (now_delay env)
                              normalized w)) s)))"

fun request_type :: "WsClientToServer \<Rightarrow> string" where
  "request_type (Ping _) = ''ping''"
| "request_type ReqTimerList = ''timer.list''"
| "request_type (ReqTimerCancel _) = ''timer.cancel''"
| "request_type (ReqTimerCreate _) = ''timer.create''"

text \<open>The text of the reply to a message that does not parse, as UTF-8.\<close>

definition parse_error_message :: string where
  "parse_error_message =
     [CHR 0xE6, CHR 0x97, CHR 0xA0, CHR 0xE6, CHR 0xB3, CHR 0x95, CHR 0xE8, CHR 0xA7,
      CHR 0xA3, CHR 0xE6, CHR 0x9E, CHR 0x90, CHR 0xE6, CHR 0xB6, CHR 0x88, CHR 0xE6,
      CHR 0x81, CHR 0xAF, CHR 0xEF, CHR 0xBC, CHR 0x88, CHR 0xE9, CHR 0x9C, CHR 0x80,
      CHR 0xE8, CHR 0xA6, CHR 0x81, CHR 0x20, CHR 0x4A, CHR 0x53, CHR 0x4F, CHR 0x4E,
      CHR 0xEF, CHR 0xBC, CHR 0x89]"

text \<open>The handler of a socket's \<open>message\<close> event.\<close>

definition onMessage :: "runtime \<Rightarrow> readings \<Rightarrow> nat \<Rightarrow> string \<Rightarrow> server \<Rightarrow> server" where
  "onMessage rt env ws text s =
     (case parseClientMessage rt text of
        None \<Rightarrow> send ws (WsError parse_error_message None) s
      | Some request \<Rightarrow>
          (case handleRequest rt env ws request s of
             Normal s' \<Rightarrow> s'
           | Throw e s' \<Rightarrow> send ws (WsError e (Some (request_type request))) s'))"

text \<open>The handlers of a new connection and of a socket's \<open>close\<close> event.\<close>

definition onConnection :: "string \<Rightarrow> nat \<Rightarrow> int \<Rightarrow> nat \<Rightarrow> server \<Rightarrow> server" where
  "onConnection path port now ws s =
     (let s1 = s\<lparr>clients := (if ws \<in> set (clients s) then clients s else clients s @ [ws])\<rparr>;
          s2 = send ws (WsHello (ms now) path port) s1
      in send ws (WsTimerList (listTimers (sched s2))) s2)"

definition onClose :: "nat \<Rightarrow> server \<Rightarrow> server" where
  "onClose ws s = s\<lparr>clients := removeAll ws (clients s)\<rparr>"

section \<open>The request correlator (waitFor in executeTimerAction)\<close>

text \<open>
  The promise \<open>waitFor\<close> returns is pending, resolved with the match, or rejected with
  an error. The events it listens to: its timer elapsing, and the socket's
  \<open>message\<close>, \<open>error\<close> and \<open>close\<close>.
\<close>

datatype 'a promise = Pending | Resolved 'a | Rejected string

datatype wait_event = TimerElapsed | MessageEvent string | ErrorEvent | CloseEvent

text \<open>
  The three rejection messages, as UTF-8. \<open>shown\<close> is the text of \<open>timeoutMs\<close> in
  the template.
\<close>

definition timeout_message :: "string \<Rightarrow> string" where
  "timeout_message shown =
     [CHR 0xE5, CHR 0xAE, CHR 0x9A, CHR 0xE6, CHR 0x97, CHR 0xB6, CHR 0xE5, CHR 0x99,
      CHR 0xA8, CHR 0xE6, CHR 0x9C, CHR 0x8D, CHR 0xE5, CHR 0x8A, CHR 0xA1, CHR 0xE8,
      CHR 0xB6, CHR 0x85, CHR 0xE6, CHR 0x97, CHR 0xB6, CHR 0xEF, CHR 0xBC, CHR 0x88]
     @ shown @
     [CHR 0x6D, CHR 0x73, CHR 0xEF, CHR 0xBC, CHR 0x89]"

definition connection_error_message :: string where
  "connection_error_message =
     [CHR 0xE5, CHR 0xAE, CHR 0x9A, CHR 0xE6, CHR 0x97, CHR 0xB6, CHR 0xE5, CHR 0x99,
      CHR 0xA8, CHR 0xE6, CHR 0x9C, CHR 0x8D, CHR 0xE5, CHR 0x8A, CHR 0xA1, CHR 0xE8,
      CHR 0xBF, CHR 0x9E, CHR 0xE6, CHR 0x8E, CHR 0xA5, CHR 0xE9, CHR 0x94, CHR 0x99,
      CHR 0xE8, CHR 0xAF, CHR 0xAF]"

definition connection_closed_message :: string where
  "connection_closed_message =
     [CHR 0xE5, CHR 0xAE, CHR 0x9A, CHR 0xE6, CHR 0x97, CHR 0xB6, CHR 0xE5, CHR 0x99,
      CHR 0xA8, CHR 0xE6, CHR 0x9C, CHR 0x8D, CHR 0xE5, CHR 0x8A, CHR 0xA1, CHR 0xE8,
      CHR 0xBF, CHR 0x9E, CHR 0xE6, CHR 0x8E, CHR 0xA5, CHR 0xE5, CHR 0xB7, CHR 0xB2,
      CHR 0xE5, CHR 0x85, CHR 0xB3, CHR 0xE9, CHR 0x97, CHR 0xAD]"

text \<open>
  One event while the promise is pending; \<open>cleanup\<close> removes the three listeners and
  clears the timer, so a settled promise receives nothing more.
\<close>

definition waitFor_step ::
  "runtime \<Rightarrow> string \<Rightarrow> (json \<Rightarrow> 'a option) \<Rightarrow> 'a promise \<Rightarrow> wait_event \<Rightarrow> 'a promise" where
  "waitFor_step rt shown predicate p ev =
     (case p of
        Pending \<Rightarrow>
          (case ev of
             TimerElapsed \<Rightarrow> Rejected (timeout_message shown)
           | ErrorEvent \<Rightarrow> Rejected connection_error_message
           | CloseEvent \<Rightarrow> Rejected connection_closed_message
           | MessageEvent text \<Rightarrow>
               (case JSON_parse rt text of
                  None \<Rightarrow> Pending
                | Some parsed \<Rightarrow>
                    (case predicate parsed of
                       None \<Rightarrow> Pending
                     | Some m \<Rightarrow> Resolved m)))
      | _ \<Rightarrow> p)"

definition waitFor ::
  "runtime \<Rightarrow> string \<Rightarrow> (json \<Rightarrow> 'a option) \<Rightarrow> wait_event list \<Rightarrow> 'a promise" where
  "waitFor rt shown predicate evs = foldl (waitFor_step rt shown predicate) Pending evs"

section \<open>Properties named by the specification, and example states\<close>

text \<open>
  A hook reschedules the host timing primitive for \<open>delta\<close> when, on its return, a
  host timer with that delay or period is pending under a handle that was not pending
  before.
\<close>

definition reschedules :: "number \<Rightarrow> scheduler \<Rightarrow> scheduler \<Rightarrow> bool" where
  "reschedules delta w w' =
     list_ex (\<lambda>(h, ht). map_of (pending w) h = None \<and>
                (case ht of Timeout cb d \<Rightarrow> d = delta | Repeating cb d \<Rightarrow> d = delta))
       (pending w')"

text \<open>A timer's first firing is not scheduled before its creation: \<open>nextRunAt >= createdAt\<close>.\<close>

definition never_before_creation :: "TimerInfo \<Rightarrow> bool" where
  "never_before_creation ti = ge (nextRunAt ti) (createdAt ti)"

text \<open>A timer's interval respects the floor: \<open>everyMs\<close> is present and \<open>everyMs >= 50\<close>.\<close>

definition at_least_50 :: "TimerInfo \<Rightarrow> bool" where
  "at_least_50 ti = (case everyMs ti of None \<Rightarrow> False | Some e \<Rightarrow> ge e (Fin 50))"

definition log_task :: TimerTask where
  "log_task = \<lparr>kind = Log, message = ''hi'', data = Some (JObj [])\<rparr>"

text \<open>
  Two runtimes for the examples: one whose \<open>JSON.stringify\<close> returns, one whose
  \<open>JSON.stringify\<close> throws. The text \<open>list\<close> stands for a message that parses to a
  \<open>timer.list\<close> request; no other text parses.
\<close>

definition plain_runtime :: runtime where
  "plain_runtime =
     \<lparr>JSON_parse =
        (\<lambda>t. if t = ''list'' then Some (JObj [(''type'', JStr ''timer.list'')]) else None),
      JSON_stringify = (\<lambda>v. Inr ''{}''),
      String_of = (\<lambda>v. Inr ''v''), trim = (\<lambda>t. t), property_error = (\<lambda>v k. ''no '' @ k)\<rparr>"

definition failing_runtime :: runtime where
  "failing_runtime = plain_runtime\<lparr>JSON_stringify := (\<lambda>v. Inl ''boom'')\<rparr>"

text \<open>
  A scheduler holding one one-shot timer; one holding an interval timer created with
  \<open>everyMs = 10\<close>; and the latter after the host ran its first firing at time 1002.
\<close>

definition example_once :: scheduler where
  "example_once = snd (createOnceTimer ''a'' 1000 1001 (Fin 900) log_task createTimerScheduler)"

definition example_interval :: scheduler where
  "example_interval =
     snd (createIntervalTimer ''b'' 1000 1001 (Fin 10) None log_task createTimerScheduler)"

definition example_running :: scheduler where
  "example_running = state_of (fire plain_runtime 0 1002 example_interval)"

text \<open>
  The request shapes the connection manager recognizes: an object whose \<open>type\<close> is
  \<open>ping\<close> or \<open>timer.list\<close>, or \<open>timer.cancel\<close> with a non-empty string \<open>id\<close>, or
  \<open>timer.create\<close> with an object \<open>timer\<close>. A message is malformed when it is empty,
  is not valid JSON, or parses to a value of no recognized shape.
\<close>

definition recognized_request :: "json \<Rightarrow> bool" where
  "recognized_request v =
     (is_object v \<and>
      (case property v ''type'' of
         Some (JStr ty) \<Rightarrow>
           ty = ''ping'' \<or> ty = ''timer.list''
           \<or> (ty = ''timer.cancel'' \<and>
                (case property v ''id'' of Some (JStr i) \<Rightarrow> i \<noteq> [] | _ \<Rightarrow> False))
           \<or> (ty = ''timer.create'' \<and>
                (case property v ''timer'' of Some tm \<Rightarrow> is_object tm | None \<Rightarrow> False))
       | _ \<Rightarrow> False))"

definition malformed :: "runtime \<Rightarrow> string \<Rightarrow> bool" where
  "malformed rt text =
     (trim rt text = [] \<or>
      (case JSON_parse rt (trim rt text) of None \<Rightarrow> True | Some v \<Rightarrow> \<not> recognized_request v))"

text \<open>
  A create input carries no non-finite numeric field: \<open>runAt\<close> is finite; \<open>everyMs\<close> is
  finite and at least 50; \<open>startAt\<close> is absent or finite.
\<close>

definition wire_clean :: "TimerCreateInput \<Rightarrow> bool" where
  "wire_clean input =
     (case input of
        CreateOnce runAt tk \<Rightarrow> Number_isFinite runAt
      | CreateInterval every start tk \<Rightarrow>
          Number_isFinite every \<and> ge every (Fin 50)
          \<and> (case start of None \<Rightarrow> True | Some s \<Rightarrow> Number_isFinite s))"

text \<open>
  An event that leaves a pending wait pending: a message that is not JSON or that the
  predicate does not match.
\<close>

definition unmatched :: "runtime \<Rightarrow> (json \<Rightarrow> 'a option) \<Rightarrow> wait_event \<Rightarrow> bool" where
  "unmatched rt predicate ev =
     (case ev of
        MessageEvent text \<Rightarrow>
          (case JSON_parse rt text of None \<Rightarrow> True | Some parsed \<Rightarrow> predicate parsed = None)
      | _ \<Rightarrow> False)"

text \<open>
  A server with two open connections on the running interval timer; the readings of
  one request; the \<open>timer\<close> of a one-shot create request whose \<open>runAt\<close> is a string and
  whose message is a number; and the \<open>timer\<close> of an interval create request with a
  non-finite \<open>everyMs\<close> and \<open>startAt\<close> and a task without a message.
\<close>

definition two_clients :: server where
  "two_clients =
     \<lparr>sched = example_running, clients = [1, 2], is_open = (\<lambda>ws. True), outbox = []\<rparr>"

definition example_readings :: readings where
  "example_readings =
     \<lparr>fresh_id = ''c'', now_normalize = 2000, now_created = 2001, now_delay = 2002\<rparr>"

definition wire_once :: json where
  "wire_once =
     JObj [(''mode'', JStr ''once''), (''runAt'', JStr ''soon''),
           (''task'', JObj [(''type'', JStr ''notify''), (''message'', JNum (Fin 5))])]"

definition wire_timer :: json where
  "wire_timer =
     JObj [(''mode'', JStr ''interval''), (''everyMs'', JNum PosInf), (''startAt'', JNum NaN),
           (''task'', JObj [(''type'', JStr ''log'')])]"

section \<open>The scheduler: proofs\<close>

lemmas sched_defs = createOnceTimer_def createIntervalTimer_def createTimerScheduler_def
  setTimeout_def setInterval_def timers_set_def timers_get_def timers_delete_def emit_def
  clearTimer_def clampMin_def ms_def console_log_def

lemmas hook_defs = onceHook_def intervalTickHook_def intervalFirstHook_def
  try_catch_def then_do_def finally_do_def runTask_def Let_def

lemma example_once_eq: "example_once = 
  \<lparr>timers = [(''a'', \<lparr>info = \<lparr>timer_id = ''a'', mode = Once, createdAt = Fin 1000, nextRunAt = Fin 1000,
                everyMs = None, lastRunAt = None, task = log_task\<rparr>, handle = 0\<rparr>)],
   pending = [(0, Timeout (OnceHook ''a'') (Fin 0))], next_handle = 1,
   emitted = [TimerCreated \<lparr>timer_id = ''a'', mode = Once, createdAt = Fin 1000, nextRunAt = Fin 1000,
                everyMs = None, lastRunAt = None, task = log_task\<rparr>], console = []\<rparr>"
  by (simp add: example_once_def sched_defs Let_def)

lemma example_interval_eq: "example_interval = 
  \<lparr>timers = [(''b'', \<lparr>info = \<lparr>timer_id = ''b'', mode = Interval, createdAt = Fin 1000, nextRunAt = Fin 1000,
                everyMs = Some (Fin 50), lastRunAt = None, task = log_task\<rparr>, handle = 0\<rparr>)],
   pending = [(0, Timeout (IntervalFirstHook ''b'' (Fin 50)) (Fin 0))], next_handle = 1,
   emitted = [TimerCreated \<lparr>timer_id = ''b'', mode = Interval, createdAt = Fin 1000, nextRunAt = Fin 1000,
                everyMs = Some (Fin 50), lastRunAt = None, task = log_task\<rparr>], console = []\<rparr>"
  by (simp add: example_interval_def sched_defs Let_def)

lemma example_running_eq: "example_running = 
  \<lparr>timers = [(''b'', \<lparr>info = \<lparr>timer_id = ''b'', mode = Interval, createdAt = Fin 1000, nextRunAt = Fin 1052,
                everyMs = Some (Fin 50), lastRunAt = Some (Fin 1002), task = log_task\<rparr>, handle = 1\<rparr>)],
   pending = [(1, Repeating (IntervalTickHook ''b'' (Fin 50)) (Fin 50))], next_handle = 2,
   emitted = [TimerCreated \<lparr>timer_id = ''b'', mode = Interval, createdAt = Fin 1000, nextRunAt = Fin 1000,
                everyMs = Some (Fin 50), lastRunAt = None, task = log_task\<rparr>,
              TimerFired \<lparr>timer_id = ''b'', mode = Interval, createdAt = Fin 1000, nextRunAt = Fin 1052,
                everyMs = Some (Fin 50), lastRunAt = Some (Fin 1002), task = log_task\<rparr> (Fin 1002)],
   console = [''[timer] hi data={}'']\<rparr>"
  by (simp add: example_running_def example_interval_eq fire_def run_hook_def hook_defs
        state_of_def plain_runtime_def log_task_def timers_get_def timers_set_def
        setInterval_def clearTimer_def emit_def ms_def console_log_def)

lemma clampMin_not_lt: "\<not> lt (clampMin v lo) lo"
  unfolding clampMin_def by (cases v; cases lo) auto

lemma clampMin_ge: "v \<noteq> NaN \<Longrightarrow> lo \<noteq> NaN \<Longrightarrow> ge (clampMin v lo) lo"
  unfolding clampMin_def ge_def by (cases v; cases lo) auto

lemma clampMin_below: "lt v lo \<Longrightarrow> clampMin v lo = lo"
  by (simp add: clampMin_def)

lemma clampMin_same: "clampMin v v = v"
  unfolding clampMin_def by (cases v) auto

lemma normalize_runAt_eq:
  "normalize_runAt now v = (case v of Some (JNum (Fin r)) \<Rightarrow> Fin (of_int \<lfloor>r\<rfloor>) | _ \<Rightarrow> ms now)"
  by (simp add: normalize_runAt_def split: option.splits json.splits number.splits)

lemma Math_max_50: "Math_max (Fin 50) (Fin (of_int z)) = Fin (of_int (max 50 z))"
proof -
  have "((50::real) < of_int z) = (50 < z)"
    using of_int_less_iff [of 50 z, where ?'a = real] by simp
  then show ?thesis by (simp add: Math_max_def max_def)
qed

lemma normalize_everyMs_eq:
  "normalize_everyMs v =
     (case v of Some (JNum (Fin r)) \<Rightarrow> Fin (of_int (max 50 \<lfloor>r\<rfloor>)) | _ \<Rightarrow> Fin 1000)"
  by (simp add: normalize_everyMs_def Math_max_50
      split: option.splits json.splits number.splits)

lemma normalize_startAt_eq:
  "normalize_startAt v =
     (case v of Some (JNum (Fin r)) \<Rightarrow> Some (Fin (of_int \<lfloor>r\<rfloor>)) | _ \<Rightarrow> None)"
  by (simp add: normalize_startAt_def split: option.splits json.splits number.splits)

lemma normalize_runAt_finite: "Number_isFinite (normalize_runAt now v)"
  by (simp add: normalize_runAt_eq ms_def split: option.splits json.splits number.splits)

lemma normalize_everyMs_clean:
  "Number_isFinite (normalize_everyMs v) \<and> ge (normalize_everyMs v) (Fin 50)"
  by (simp add: normalize_everyMs_eq ge_def split: option.splits json.splits number.splits)

lemma normalize_startAt_finite:
  "normalize_startAt v = Some x \<Longrightarrow> Number_isFinite x"
  by (auto simp: normalize_startAt_eq split: option.splits json.splits number.splits)

lemma finite_not_NaN: "Number_isFinite n \<Longrightarrow> n \<noteq> NaN"
  by (cases n) auto

lemma once_never_before:
  "runAt \<noteq> NaN \<Longrightarrow>
   never_before_creation (fst (createOnceTimer ident t_created t_delay runAt tk w))"
  by (simp add: createOnceTimer_def Let_def setTimeout_def split_beta never_before_creation_def
      clampMin_ge ms_def)

lemma interval_never_before:
  "start_in \<noteq> Some NaN \<Longrightarrow>
   never_before_creation
     (fst (createIntervalTimer ident t_created t_delay every_in start_in tk w))"
  by (cases start_in)
     (simp_all add: createIntervalTimer_def Let_def setTimeout_def split_beta
        never_before_creation_def clampMin_ge ms_def)

text \<open>
  C1 (as the code has it). Every firing hook of an interval timer that runs while the
  timer is tracked records \<open>lastRunAt = firedAt\<close> and \<open>nextRunAt = firedAt + everyMs\<close>
  and returns normally. The hook of the first firing starts one \<open>setInterval\<close> with
  period \<open>everyMs\<close> and stores its handle; the hook of every later firing makes no call
  to the host timing primitive: the pending host timers and the next handle are as
  before it ran.
\<close>

theorem interval_firing_recomputes_nextRunAt:
  assumes "timers_get w ident = Some cur"
  shows "(\<exists>w'. intervalTickHook rt ident every t w = Normal w'
            \<and> timers_get w' ident =
                Some (cur\<lparr>info := (info cur)\<lparr>lastRunAt := Some (ms t),
                                              nextRunAt := add (ms t) every\<rparr>\<rparr>)
            \<and> pending w' = pending w \<and> next_handle w' = next_handle w)
       \<and> (\<exists>w'. intervalFirstHook rt ident every t w = Normal w'
            \<and> timers_get w' ident =
                Some \<lparr>info = (info cur)\<lparr>lastRunAt := Some (ms t),
                                         nextRunAt := add (ms t) every\<rparr>,
                      handle = next_handle w\<rparr>
            \<and> pending w' =
                pending w @ [(next_handle w, Repeating (IntervalTickHook ident every) every)])"
proof (intro conjI)
  show "\<exists>w'. intervalTickHook rt ident every t w = Normal w'
            \<and> timers_get w' ident =
                Some (cur\<lparr>info := (info cur)\<lparr>lastRunAt := Some (ms t),
                                              nextRunAt := add (ms t) every\<rparr>\<rparr>)
            \<and> pending w' = pending w \<and> next_handle w' = next_handle w"
    using assms
    by (auto simp: intervalTickHook_def Let_def try_catch_def then_do_def runTask_def
        timers_get_def timers_set_def emit_def console_log_def AList.update_conv'
        split: option.splits sum.splits)
  show "\<exists>w'. intervalFirstHook rt ident every t w = Normal w'
            \<and> timers_get w' ident =
                Some \<lparr>info = (info cur)\<lparr>lastRunAt := Some (ms t),
                                         nextRunAt := add (ms t) every\<rparr>,
                      handle = next_handle w\<rparr>
            \<and> pending w' =
                pending w @ [(next_handle w, Repeating (IntervalTickHook ident every) every)]"
    using assms
    by (auto simp: intervalFirstHook_def Let_def try_catch_def then_do_def runTask_def
        timers_get_def timers_set_def setInterval_def emit_def console_log_def AList.update_conv'
        split: option.splits sum.splits)
qed

theorem interval_firing_recomputes_nextRunAt_witness:
  "timers_get example_running ''b'' \<noteq> None
   \<and> (\<exists>w'. intervalTickHook plain_runtime ''b'' (Fin 50) 1060 example_running = Normal w'
         \<and> map_option (nextRunAt \<circ> info) (timers_get w' ''b'') = Some (Fin 1110)
         \<and> pending w' = pending example_running)"
proof -
  have tracked: "timers_get example_running ''b'' =
      Some \<lparr>info = \<lparr>timer_id = ''b'', mode = Interval, createdAt = Fin 1000,
                     nextRunAt = Fin 1052, everyMs = Some (Fin 50),
                     lastRunAt = Some (Fin 1002), task = log_task\<rparr>, handle = 1\<rparr>"
    by (simp add: example_running_eq timers_get_def)
  from interval_firing_recomputes_nextRunAt [OF tracked, of plain_runtime "Fin 50" 1060]
  obtain w' where "intervalTickHook plain_runtime ''b'' (Fin 50) 1060 example_running = Normal w'"
    and "timers_get w' ''b'' =
           Some (\<lparr>info = \<lparr>timer_id = ''b'', mode = Interval, createdAt = Fin 1000,
                     nextRunAt = Fin 1052, everyMs = Some (Fin 50),
                     lastRunAt = Some (Fin 1002), task = log_task\<rparr>, handle = 1\<rparr>
                 \<lparr>info := \<lparr>timer_id = ''b'', mode = Interval, createdAt = Fin 1000,
                     nextRunAt = Fin 1052, everyMs = Some (Fin 50),
                     lastRunAt = Some (Fin 1002), task = log_task\<rparr>
                    \<lparr>lastRunAt := Some (ms 1060), nextRunAt := add (ms 1060) (Fin 50)\<rparr>\<rparr>)"
    and "pending w' = pending example_running"
    by auto
  then show ?thesis using tracked by (auto simp: ms_def)
qed

text \<open>
  C1 as stated fails: the later firing of the interval timer of \<open>example_running\<close>, run
  by the host at time 1060, leaves no new host timer for the delta 50.
\<close>

theorem tick_reschedules_counterexample:
  "\<not> reschedules (Fin 50) example_running
        (state_of (fire plain_runtime 1 1060 example_running))
   \<and> pending (state_of (fire plain_runtime 1 1060 example_running)) = pending example_running"
  by (simp add: example_running_eq fire_def run_hook_def hook_defs state_of_def reschedules_def
        plain_runtime_def log_task_def timers_get_def timers_set_def emit_def ms_def
        console_log_def)

lemma clampMin_floor_50:
  "clampMin (Fin (of_int z)) (Fin 50) = Fin (of_int (max 50 z))"
proof -
  have "(of_int z < (50::real)) = (z < 50)"
    using of_int_less_iff [of z 50, where ?'a = real] by simp
  then show ?thesis by (simp add: clampMin_def max_def)
qed

lemma stored_everyMs:
  "everyMs (fst (createIntervalTimer ident t_created t_delay every_in start_in tk w)) =
     Some (clampMin (Math_floor every_in) (Fin 50))"
  by (simp add: createIntervalTimer_def Let_def setTimeout_def split_beta)

lemma normalize_everyMs_fixed:
  "clampMin (Math_floor (normalize_everyMs v)) (Fin 50) = normalize_everyMs v"
proof -
  have a: "clampMin (Fin 1000) (Fin 50) = Fin 1000" by (simp add: clampMin_def)
  have b: "\<And>z::int. clampMin (Fin (of_int (max 50 z))) (Fin 50) = Fin (of_int (max 50 z))"
    using clampMin_floor_50 by simp
  show ?thesis
    using a b
    by (simp add: normalize_everyMs_eq split: option.splits json.splits number.splits)
qed

lemma first_hook_pending:
  "timers_get w ident = Some cur \<Longrightarrow>
   pending (state_of (intervalFirstHook rt ident every t w)) =
     pending w @ [(next_handle w, Repeating (IntervalTickHook ident every) every)]"
  by (auto simp: intervalFirstHook_def Let_def try_catch_def then_do_def runTask_def
      timers_get_def timers_set_def setInterval_def emit_def console_log_def state_of_def
      split: option.splits sum.splits)

lemma created_interval_state:
  assumes "createIntervalTimer ident t_created t_delay every_in start_in tk w = (ti, w')"
  shows "timers_get w' ident = Some \<lparr>info = ti, handle = next_handle w\<rparr>"
    and "\<exists>delay. pending w' = pending w @
           [(next_handle w,
             Timeout (IntervalFirstHook ident (clampMin (Math_floor every_in) (Fin 50))) delay)]"
  using assms
  by (auto simp: createIntervalTimer_def Let_def setTimeout_def timers_set_def timers_get_def
      emit_def AList.update_conv')

text \<open>
  C3 (as the code has it). For every \<open>everyMs\<close> other than NaN the created interval timer
  stores the larger of 50 and the floor of the input (positive infinity stays, negative
  infinity gives 50), so at least 50; an input of 10 gives 50. No stored \<open>everyMs\<close> is
  below 50. The value the connection manager passes on is the larger of 50 and the
  floor of a finite \<open>everyMs\<close> and 1000 otherwise, and the scheduler stores it as it is.
  The closure handed to the host for the first firing carries the stored value, which
  is the period of the \<open>setInterval\<close> that closure starts.
\<close>

theorem everyMs_floor_50:
  assumes "createIntervalTimer ident t_created t_delay every_in start_in tk w = (ti, w')"
  shows "(\<forall>r. every_in = Fin r \<longrightarrow> everyMs ti = Some (Fin (of_int (max 50 \<lfloor>r\<rfloor>))))
       \<and> (every_in = PosInf \<longrightarrow> everyMs ti = Some PosInf)
       \<and> (every_in = NegInf \<longrightarrow> everyMs ti = Some (Fin 50))
       \<and> (every_in \<noteq> NaN \<longrightarrow> at_least_50 ti)
       \<and> (\<forall>e. everyMs ti = Some e \<longrightarrow> \<not> lt e (Fin 50))
       \<and> normalize_everyMs v =
            (case v of Some (JNum (Fin r)) \<Rightarrow> Fin (of_int (max 50 \<lfloor>r\<rfloor>)) | _ \<Rightarrow> Fin 1000)
       \<and> (every_in = normalize_everyMs v \<longrightarrow>
             everyMs ti = Some (normalize_everyMs v) \<and> at_least_50 ti)
       \<and> timers_get w' ident = Some \<lparr>info = ti, handle = next_handle w\<rparr>
       \<and> (\<exists>delay e. everyMs ti = Some e
             \<and> pending w' = pending w @ [(next_handle w, Timeout (IntervalFirstHook ident e) delay)]
             \<and> (\<forall>rt t. pending (state_of (intervalFirstHook rt ident e t w')) =
                   pending w' @ [(next_handle w', Repeating (IntervalTickHook ident e) e)]))"
proof -
  let ?e = "clampMin (Math_floor every_in) (Fin 50)"
  have stored: "everyMs ti = Some ?e"
    using stored_everyMs [of ident t_created t_delay every_in start_in tk w] assms by simp
  have fin: "\<forall>r. every_in = Fin r \<longrightarrow> everyMs ti = Some (Fin (of_int (max 50 \<lfloor>r\<rfloor>)))"
    using stored by (simp add: clampMin_floor_50)
  have pinf: "every_in = PosInf \<longrightarrow> everyMs ti = Some PosInf"
    using stored by (simp add: clampMin_def)
  have ninf: "every_in = NegInf \<longrightarrow> everyMs ti = Some (Fin 50)"
    using stored by (simp add: clampMin_def)
  have "every_in \<noteq> NaN \<Longrightarrow> Math_floor every_in \<noteq> NaN"
    by (cases every_in) auto
  then have floor50: "every_in \<noteq> NaN \<longrightarrow> at_least_50 ti"
    using stored by (simp add: at_least_50_def clampMin_ge)
  have never: "\<forall>e. everyMs ti = Some e \<longrightarrow> \<not> lt e (Fin 50)"
    using stored by (simp add: clampMin_not_lt)
  have wire: "every_in = normalize_everyMs v \<longrightarrow>
      everyMs ti = Some (normalize_everyMs v) \<and> at_least_50 ti"
    using stored normalize_everyMs_clean [of v]
    by (simp add: normalize_everyMs_fixed at_least_50_def)
  have tracked: "timers_get w' ident = Some \<lparr>info = ti, handle = next_handle w\<rparr>"
    using assms by (rule created_interval_state(1))
  from created_interval_state(2) [OF assms] obtain delay where
    pend: "pending w' = pending w @ [(next_handle w, Timeout (IntervalFirstHook ident ?e) delay)]"
    by blast
  have "\<forall>rt t. pending (state_of (intervalFirstHook rt ident ?e t w')) =
      pending w' @ [(next_handle w', Repeating (IntervalTickHook ident ?e) ?e)]"
    using first_hook_pending [OF tracked] by simp
  with stored pend have host: "\<exists>delay e. everyMs ti = Some e
      \<and> pending w' = pending w @ [(next_handle w, Timeout (IntervalFirstHook ident e) delay)]
      \<and> (\<forall>rt t. pending (state_of (intervalFirstHook rt ident e t w')) =
            pending w' @ [(next_handle w', Repeating (IntervalTickHook ident e) e)])"
    by blast
  from fin pinf ninf floor50 never wire tracked host normalize_everyMs_eq [of v]
  show ?thesis by simp
qed

theorem everyMs_floor_50_witness:
  "everyMs (fst (createIntervalTimer ''b'' 1000 1001 (Fin 10) None log_task createTimerScheduler))
     = Some (Fin 50)
   \<and> at_least_50
       (fst (createIntervalTimer ''b'' 1000 1001 (Fin 10) None log_task createTimerScheduler))
   \<and> everyMs (fst (createIntervalTimer ''b'' 1000 1001 (Fin 1000) None log_task
                      createTimerScheduler))
     = Some (Fin 1000)
   \<and> normalize_everyMs (Some (JNum (Fin 10))) = Fin 50
   \<and> pending example_interval = [(0, Timeout (IntervalFirstHook ''b'' (Fin 50)) (Fin 0))]
   \<and> pending example_running = [(1, Repeating (IntervalTickHook ''b'' (Fin 50)) (Fin 50))]"
proof -
  have small: "everyMs (fst (createIntervalTimer ''b'' 1000 1001 (Fin 10) None log_task
                createTimerScheduler)) = Some (Fin 50)
      \<and> at_least_50 (fst (createIntervalTimer ''b'' 1000 1001 (Fin 10) None log_task
                createTimerScheduler))
      \<and> normalize_everyMs (Some (JNum (Fin 10))) = Fin 50"
    using everyMs_floor_50 [of "''b''" 1000 1001 "Fin 10" None log_task createTimerScheduler
      "fst (createIntervalTimer ''b'' 1000 1001 (Fin 10) None log_task createTimerScheduler)"
      "snd (createIntervalTimer ''b'' 1000 1001 (Fin 10) None log_task createTimerScheduler)"
      "Some (JNum (Fin 10))"]
    by simp
  have large: "everyMs (fst (createIntervalTimer ''b'' 1000 1001 (Fin 1000) None log_task
                createTimerScheduler)) = Some (Fin 1000)"
    using everyMs_floor_50 [of "''b''" 1000 1001 "Fin 1000" None log_task createTimerScheduler
      "fst (createIntervalTimer ''b'' 1000 1001 (Fin 1000) None log_task createTimerScheduler)"
      "snd (createIntervalTimer ''b'' 1000 1001 (Fin 1000) None log_task createTimerScheduler)"
      "Some (JNum (Fin 10))"]
    by simp
  from small large show ?thesis
    by (simp add: example_interval_eq example_running_eq)
qed

text \<open>
  C3 as stated fails: an interval timer created with \<open>everyMs = NaN\<close> stores NaN, which
  is not \<open>>= 50\<close>, and NaN is what its first-firing closure will hand to \<open>setInterval\<close>.
\<close>

theorem everyMs_NaN_counterexample:
  "\<not> at_least_50
       (fst (createTimer ''b'' 1000 1001 (CreateInterval NaN None log_task) createTimerScheduler))
   \<and> everyMs
       (fst (createTimer ''b'' 1000 1001 (CreateInterval NaN None log_task) createTimerScheduler))
     = Some NaN
   \<and> pending
       (snd (createTimer ''b'' 1000 1001 (CreateInterval NaN None log_task) createTimerScheduler))
     = [(0, Timeout (IntervalFirstHook ''b'' NaN) (Fin 0))]"
  by (simp add: createTimer_def createIntervalTimer_def createTimerScheduler_def Let_def
      setTimeout_def timers_set_def emit_def clampMin_def ms_def at_least_50_def ge_def)

text \<open>
  C4. When the task of a tracked timer throws (a \<open>log\<close> task whose data
  \<open>JSON.stringify\<close> rejects with message \<open>e\<close>), each of the three firing hooks returns
  normally, emits exactly \<open>timer.error{id, e}\<close> and no \<open>timer.fired\<close>, and leaves every
  other timer's entry as it was.
\<close>

theorem failing_task_contained:
  assumes "timers_get w ident = Some cur"
    and "kind (task (info cur)) = Log"
    and "data (task (info cur)) = Some d"
    and "JSON_stringify rt d = Inl e"
  shows "(\<exists>w'. onceHook rt ident t w = Normal w'
            \<and> emitted w' = emitted w @ [TimerError (Some ident) e]
            \<and> (\<forall>k. k \<noteq> ident \<longrightarrow> timers_get w' k = timers_get w k))
       \<and> (\<exists>w'. intervalFirstHook rt ident every t w = Normal w'
            \<and> emitted w' = emitted w @ [TimerError (Some ident) e]
            \<and> (\<forall>k. k \<noteq> ident \<longrightarrow> timers_get w' k = timers_get w k))
       \<and> (\<exists>w'. intervalTickHook rt ident every t w = Normal w'
            \<and> emitted w' = emitted w @ [TimerError (Some ident) e]
            \<and> (\<forall>k. k \<noteq> ident \<longrightarrow> timers_get w' k = timers_get w k))"
  using assms
  by (auto simp: hook_defs timers_get_def timers_set_def timers_delete_def setInterval_def
      emit_def AList.update_conv' AList.delete_conv')

theorem failing_task_contained_witness:
  "timers_get example_once ''a'' \<noteq> None
   \<and> onceHook failing_runtime ''a'' 1005 example_once =
       Normal (example_once\<lparr>timers := [],
                 emitted := emitted example_once @ [TimerError (Some ''a'') ''boom'']\<rparr>)"
proof -
  have tracked: "timers_get example_once ''a'' =
      Some \<lparr>info = \<lparr>timer_id = ''a'', mode = Once, createdAt = Fin 1000, nextRunAt = Fin 1000,
                everyMs = None, lastRunAt = None, task = log_task\<rparr>, handle = 0\<rparr>"
    by (simp add: example_once_eq timers_get_def)
  have k: "kind (task (info \<lparr>info = \<lparr>timer_id = ''a'', mode = Once, createdAt = Fin 1000,
                nextRunAt = Fin 1000, everyMs = None, lastRunAt = None, task = log_task\<rparr>,
                handle = 0\<rparr>)) = Log"
    by (simp add: log_task_def)
  have d: "data (task (info \<lparr>info = \<lparr>timer_id = ''a'', mode = Once, createdAt = Fin 1000,
                nextRunAt = Fin 1000, everyMs = None, lastRunAt = None, task = log_task\<rparr>,
                handle = 0\<rparr>)) = Some (JObj [])"
    by (simp add: log_task_def)
  have f: "JSON_stringify failing_runtime (JObj []) = Inl ''boom''"
    by (simp add: failing_runtime_def)
  from failing_task_contained [OF tracked k d f, of 1005]
  obtain w' where run: "onceHook failing_runtime ''a'' 1005 example_once = Normal w'"
    and ev: "emitted w' = emitted example_once @ [TimerError (Some ''a'') ''boom'']"
    by blast
  have "onceHook failing_runtime ''a'' 1005 example_once =
       Normal (example_once\<lparr>timers := [],
                 emitted := emitted example_once @ [TimerError (Some ''a'') ''boom'']\<rparr>)"
    by (simp add: example_once_eq hook_defs timers_get_def timers_set_def timers_delete_def
        emit_def log_task_def failing_runtime_def plain_runtime_def)
  with run ev tracked show ?thesis by simp
qed

text \<open>
  C5. The hook of a one-shot timer that runs while the timer is tracked returns
  normally with the timer gone from the map, whatever the task did: \<open>listTimers()\<close>
  is then the snapshot of the other entries only.
\<close>

theorem once_timer_removed:
  assumes "timers_get w ident = Some existing"
  shows "\<exists>w'. onceHook rt ident t w = Normal w' \<and> timers_get w' ident = None
     \<and> ident \<notin> fst ` set (timers w')
     \<and> listTimers w' = map (\<lambda>(k, t). info t) (AList.delete ident (timers w))"
  using assms
  by (auto simp: hook_defs timers_get_def timers_set_def timers_delete_def emit_def
      console_log_def listTimers_def AList.delete_conv' AList.delete_update_same
      AList.delete_notin_dom
      split: option.splits sum.splits)

theorem once_timer_removed_witness:
  "timers_get example_once ''a'' \<noteq> None
   \<and> (\<exists>w'. onceHook failing_runtime ''a'' 1005 example_once = Normal w' \<and> listTimers w' = [])
   \<and> (\<exists>w'. onceHook plain_runtime ''a'' 1005 example_once = Normal w' \<and> listTimers w' = [])"
proof -
  have tracked: "timers_get example_once ''a'' =
      Some \<lparr>info = \<lparr>timer_id = ''a'', mode = Once, createdAt = Fin 1000, nextRunAt = Fin 1000,
                everyMs = None, lastRunAt = None, task = log_task\<rparr>, handle = 0\<rparr>"
    by (simp add: example_once_eq timers_get_def)
  have gone: "map (\<lambda>(k, t). info t) (AList.delete ''a'' (timers example_once)) = []"
    by (simp add: example_once_eq)
  show ?thesis
    using once_timer_removed [OF tracked, of failing_runtime 1005]
      once_timer_removed [OF tracked, of plain_runtime 1005] tracked gone
    by auto
qed

text \<open>
  C6. \<open>cancelTimer(id)\<close> returns true exactly when a timer with that id was tracked; it
  always emits \<open>timer.canceled{id, ok}\<close> with the returned boolean. For an unknown id the
  timer map, the pending host timers and the snapshot are unchanged; for a tracked id
  the entry is deleted and the host timer of its handle is no longer pending.
\<close>

theorem cancelTimer_result:
  "fst (cancelTimer ident w) = (timers_get w ident \<noteq> None)
   \<and> emitted (snd (cancelTimer ident w)) =
       emitted w @ [TimerCanceled ident (fst (cancelTimer ident w))]
   \<and> (timers_get w ident = None \<longrightarrow>
         timers (snd (cancelTimer ident w)) = timers w
         \<and> pending (snd (cancelTimer ident w)) = pending w
         \<and> listTimers (snd (cancelTimer ident w)) = listTimers w)
   \<and> (\<forall>existing. timers_get w ident = Some existing \<longrightarrow>
         timers (snd (cancelTimer ident w)) = AList.delete ident (timers w)
         \<and> timers_get (snd (cancelTimer ident w)) ident = None
         \<and> pending (snd (cancelTimer ident w)) = AList.delete (handle existing) (pending w)
         \<and> map_of (pending (snd (cancelTimer ident w))) (handle existing) = None)"
  by (auto simp: cancelTimer_def timers_get_def timers_delete_def clearTimer_def emit_def
      listTimers_def AList.delete_conv' AList.delete_idem split: option.splits)

theorem cancelTimer_result_witness:
  "cancelTimer ''zz'' example_running =
     (False, example_running\<lparr>emitted := emitted example_running @ [TimerCanceled ''zz'' False]\<rparr>)
   \<and> timers_get example_running ''b'' \<noteq> None
   \<and> fst (cancelTimer ''b'' example_running)
   \<and> timers (snd (cancelTimer ''b'' example_running)) = []
   \<and> pending (snd (cancelTimer ''b'' example_running)) = []
   \<and> emitted (snd (cancelTimer ''b'' example_running)) =
       emitted example_running @ [TimerCanceled ''b'' True]"
proof -
  have unknown: "timers_get example_running ''zz'' = None"
    by (simp add: example_running_eq timers_get_def)
  have tracked: "timers_get example_running ''b'' =
      Some \<lparr>info = \<lparr>timer_id = ''b'', mode = Interval, createdAt = Fin 1000,
                     nextRunAt = Fin 1052, everyMs = Some (Fin 50),
                     lastRunAt = Some (Fin 1002), task = log_task\<rparr>, handle = 1\<rparr>"
    by (simp add: example_running_eq timers_get_def)
  have a: "AList.delete ''b'' (timers example_running) = []"
    and b: "AList.delete 1 (pending example_running) = []"
    by (simp_all add: example_running_eq)
  have c: "cancelTimer ''zz'' example_running =
     (False, example_running\<lparr>emitted := emitted example_running @ [TimerCanceled ''zz'' False]\<rparr>)"
    using unknown by (simp add: cancelTimer_def emit_def)
  show ?thesis
    using cancelTimer_result [of "''zz''" example_running]
      cancelTimer_result [of "''b''" example_running] unknown tracked a b c
    by simp
qed

text \<open>
  C7 (as the code has it). \<open>createdAt\<close> is the creation time; a \<open>runAt\<close> or \<open>startAt\<close>
  before it gives \<open>nextRunAt = createdAt\<close>, as does an absent \<open>startAt\<close>; for every
  \<open>runAt\<close> or \<open>startAt\<close> other than NaN, and so for every value the connection manager
  passes on, \<open>nextRunAt >= createdAt\<close>; and the delay handed to \<open>setTimeout\<close> is never
  below 0.
\<close>

theorem nextRunAt_clamped_forward:
  "(let (ti, w') = createOnceTimer ident t_created t_delay runAt tk w in
      createdAt ti = ms t_created
      \<and> (lt runAt (ms t_created) \<longrightarrow> nextRunAt ti = createdAt ti)
      \<and> (runAt \<noteq> NaN \<longrightarrow> never_before_creation ti)
      \<and> (\<exists>delay. pending w' = pending w @ [(next_handle w, Timeout (OnceHook ident) delay)]
            \<and> \<not> lt delay (Fin 0)))
   \<and> (let (ti, w') = createIntervalTimer ident t_created t_delay every_in start_in tk w in
      createdAt ti = ms t_created
      \<and> (start_in = None \<longrightarrow> nextRunAt ti = createdAt ti)
      \<and> (\<forall>startAt. start_in = Some startAt \<and> lt startAt (ms t_created) \<longrightarrow>
             nextRunAt ti = createdAt ti)
      \<and> (start_in \<noteq> Some NaN \<longrightarrow> never_before_creation ti)
      \<and> (\<exists>delay every. pending w' =
              pending w @ [(next_handle w, Timeout (IntervalFirstHook ident every) delay)]
            \<and> \<not> lt delay (Fin 0)))
   \<and> never_before_creation
        (fst (createOnceTimer ident t_created t_delay (normalize_runAt now v) tk w))
   \<and> never_before_creation
        (fst (createIntervalTimer ident t_created t_delay every_in (normalize_startAt v') tk w))"
proof -
  have wire1: "normalize_runAt now v \<noteq> NaN"
    by (rule finite_not_NaN) (rule normalize_runAt_finite)
  have wire2: "normalize_startAt v' \<noteq> Some NaN"
    using normalize_startAt_finite [of v' NaN] by auto
  have g: "\<And>v. v \<noteq> NaN \<Longrightarrow> ge (clampMin v (ms t_created)) (ms t_created)"
    by (rule clampMin_ge) (simp_all add: ms_def)
  have g0: "ge (clampMin (ms t_created) (ms t_created)) (ms t_created)"
    by (rule g) (simp add: ms_def)
  have "(let (ti, w') = createOnceTimer ident t_created t_delay runAt tk w in
      createdAt ti = ms t_created
      \<and> (lt runAt (ms t_created) \<longrightarrow> nextRunAt ti = createdAt ti)
      \<and> (runAt \<noteq> NaN \<longrightarrow> never_before_creation ti)
      \<and> (\<exists>delay. pending w' = pending w @ [(next_handle w, Timeout (OnceHook ident) delay)]
            \<and> \<not> lt delay (Fin 0)))"
    using g
    by (auto simp: createOnceTimer_def Let_def setTimeout_def timers_set_def emit_def
        never_before_creation_def clampMin_below clampMin_not_lt)
  moreover have "(let (ti, w') =
        createIntervalTimer ident t_created t_delay every_in start_in tk w in
      createdAt ti = ms t_created
      \<and> (start_in = None \<longrightarrow> nextRunAt ti = createdAt ti)
      \<and> (\<forall>startAt. start_in = Some startAt \<and> lt startAt (ms t_created) \<longrightarrow>
             nextRunAt ti = createdAt ti)
      \<and> (start_in \<noteq> Some NaN \<longrightarrow> never_before_creation ti)
      \<and> (\<exists>delay every. pending w' =
              pending w @ [(next_handle w, Timeout (IntervalFirstHook ident every) delay)]
            \<and> \<not> lt delay (Fin 0)))"
    using g g0
    by (auto simp: createIntervalTimer_def Let_def setTimeout_def timers_set_def emit_def
        never_before_creation_def clampMin_below clampMin_not_lt clampMin_same
        split: option.splits)
  ultimately show ?thesis
    using once_never_before [OF wire1] interval_never_before [OF wire2]
    by simp
qed

theorem nextRunAt_clamped_forward_witness:
  "lt (Fin 900) (ms 1000)
   \<and> nextRunAt (fst (createOnceTimer ''a'' 1000 1001 (Fin 900) log_task createTimerScheduler))
       = Fin 1000
   \<and> never_before_creation
       (fst (createOnceTimer ''a'' 1000 1001 (Fin 900) log_task createTimerScheduler))
   \<and> never_before_creation
       (fst (createIntervalTimer ''a'' 1000 1001 (Fin 10) (Some (Fin 5)) log_task createTimerScheduler))"
  using nextRunAt_clamped_forward [where ident = "''a''" and t_created = 1000 and t_delay = 1001
      and runAt = "Fin 900" and tk = log_task and w = createTimerScheduler
      and every_in = "Fin 10" and start_in = "Some (Fin 5)"]
  by (simp add: ms_def split_beta)

text \<open>
  C7 as stated fails: a one-shot timer created with \<open>runAt = NaN\<close> has \<open>nextRunAt = NaN\<close>,
  which is not \<open>>= createdAt\<close>.
\<close>

theorem never_before_creation_counterexample:
  "\<not> never_before_creation
       (fst (createTimer ''a'' 1000 1001 (CreateOnce NaN log_task) createTimerScheduler))
   \<and> nextRunAt (fst (createTimer ''a'' 1000 1001 (CreateOnce NaN log_task) createTimerScheduler))
       = NaN"
  by (simp add: createTimer_def createOnceTimer_def Let_def setTimeout_def timers_set_def emit_def
      clampMin_def ms_def never_before_creation_def ge_def)

section \<open>The connection manager: proofs\<close>

lemma send_fields [simp]:
  "sched (send ws m s) = sched s" "clients (send ws m s) = clients s"
  "is_open (send ws m s) = is_open s"
  by (simp_all add: send_def)




lemma parse_None_iff: "parseClientMessage rt text = None \<longleftrightarrow> malformed rt text"
  by (auto simp: parseClientMessage_def malformed_def recognized_request_def Let_def
      split: option.splits json.splits if_splits)

text \<open>
  C8. The handler of a malformed message changes nothing but the outbox, to which it
  adds one \<open>error\<close> message for the sending connection (if that socket is open): the
  scheduler, the connection set and every socket's state are as before, and no other
  connection is written to.
\<close>

theorem malformed_message_error_unicast:
  assumes "malformed rt text"
  shows "onMessage rt env ws text s =
           s\<lparr>outbox := outbox s @ (if is_open s ws then [(ws, WsError parse_error_message None)] else [])\<rparr>"
proof -
  from assms have "parseClientMessage rt text = None" by (simp add: parse_None_iff)
  then show ?thesis by (simp add: onMessage_def send_def)
qed

theorem malformed_message_error_unicast_witness:
  "malformed plain_runtime ''not json''
   \<and> onMessage plain_runtime example_readings 1 ''not json'' two_clients =
       two_clients\<lparr>outbox := [(1, WsError parse_error_message None)]\<rparr>"
proof -
  have m: "malformed plain_runtime ''not json''"
    by (simp add: malformed_def plain_runtime_def)
  show ?thesis
    using malformed_message_error_unicast [OF m, of example_readings 1 two_clients] m
    by (simp add: two_clients_def)
qed



lemma normalized_clean: "normalizeTimerCreateInput rt now tm = Inr input \<Longrightarrow> wire_clean input"
  by (auto simp: normalizeTimerCreateInput_def wire_clean_def normalize_runAt_finite
      normalize_everyMs_clean normalize_startAt_finite
      split: if_splits sum.splits option.splits)

lemma normalizeTask_eq:
  "j \<noteq> JNull \<Longrightarrow>
   normalizeTask rt (Some j) =
     (let k = (if property j ''type'' = Some (JStr ''log'') then Log else Notify);
          d = property j ''data''
      in case property j ''message'' of
           None \<Rightarrow> Inr \<lparr>kind = k, message = [], data = d\<rparr>
         | Some JNull \<Rightarrow> Inr \<lparr>kind = k, message = [], data = d\<rparr>
         | Some (JStr m) \<Rightarrow> Inr \<lparr>kind = k, message = m, data = d\<rparr>
         | Some other \<Rightarrow>
             (case String_of rt other of
                Inl e \<Rightarrow> Inl e
              | Inr m \<Rightarrow> Inr \<lparr>kind = k, message = m, data = d\<rparr>))"
  by (cases j)
     (simp_all add: normalizeTask_def message_text_def Let_def
        split: option.splits json.splits sum.splits)

lemma normalizeTimerCreateInput_eq:
  "tm \<noteq> JNull \<Longrightarrow>
   normalizeTimerCreateInput rt now tm =
     (case normalizeTask rt (property tm ''task'') of
        Inl e \<Rightarrow> Inl e
      | Inr tk \<Rightarrow>
          Inr (if property tm ''mode'' = Some (JStr ''once'')
               then CreateOnce
                      (case property tm ''runAt'' of
                         Some (JNum (Fin r)) \<Rightarrow> Fin (of_int \<lfloor>r\<rfloor>)
                       | _ \<Rightarrow> ms now) tk
               else CreateInterval
                      (case property tm ''everyMs'' of
                         Some (JNum (Fin r)) \<Rightarrow> Fin (of_int (max 50 \<lfloor>r\<rfloor>))
                       | _ \<Rightarrow> Fin 1000)
                      (case property tm ''startAt'' of
                         Some (JNum (Fin r)) \<Rightarrow> Some (Fin (of_int \<lfloor>r\<rfloor>))
                       | _ \<Rightarrow> None) tk))"
  by (simp add: normalizeTimerCreateInput_def normalize_runAt_eq normalize_everyMs_eq
      normalize_startAt_eq split: sum.splits)

text \<open>
  C10. A create request either throws before the scheduler is called, or calls
  \<open>createTimer\<close> on the normalized input, whose numeric fields are finite. The normalized
  input of a \<open>timer\<close> is determined as follows, or the normalization throws as the task's
  does. For mode \<open>once\<close> it is a one-shot input whose \<open>runAt\<close> is the floor of a finite
  \<open>runAt\<close> and the current time otherwise; for any other mode it is an interval input
  whose \<open>everyMs\<close> is the larger of 50 and the floor of a finite \<open>everyMs\<close> and 1000
  otherwise, and whose \<open>startAt\<close> is the floor of a finite \<open>startAt\<close> and absent otherwise.
  Its task is the normalized task: kind \<open>log\<close> for type \<open>log\<close> and \<open>notify\<close> otherwise,
  the data as sent, and as message the empty string for a missing or null message, the
  string for a string, and \<open>String(v)\<close> for any other value (throwing if that throws).
  Reading the type of a missing or null task throws.
\<close>

theorem wire_create_normalized:
  "(case normalizeTimerCreateInput rt (now_normalize env) tm of
      Inl e \<Rightarrow> handleRequest rt env ws (ReqTimerCreate tm) s = Throw e s
    | Inr input \<Rightarrow>
        handleRequest rt env ws (ReqTimerCreate tm) s =
          Normal (with_scheduler
            (\<lambda>w. snd (createTimer (fresh_id env) (now_created env) (now_delay env) input w)) s)
        \<and> wire_clean input)
   \<and> (tm \<noteq> JNull \<longrightarrow>
        normalizeTimerCreateInput rt now tm =
          (case normalizeTask rt (property tm ''task'') of
             Inl e \<Rightarrow> Inl e
           | Inr tk \<Rightarrow>
               Inr (if property tm ''mode'' = Some (JStr ''once'')
                    then CreateOnce
                           (case property tm ''runAt'' of
                              Some (JNum (Fin r)) \<Rightarrow> Fin (of_int \<lfloor>r\<rfloor>)
                            | _ \<Rightarrow> ms now) tk
                    else CreateInterval
                           (case property tm ''everyMs'' of
                              Some (JNum (Fin r)) \<Rightarrow> Fin (of_int (max 50 \<lfloor>r\<rfloor>))
                            | _ \<Rightarrow> Fin 1000)
                           (case property tm ''startAt'' of
                              Some (JNum (Fin r)) \<Rightarrow> Some (Fin (of_int \<lfloor>r\<rfloor>))
                            | _ \<Rightarrow> None) tk)))
   \<and> (j \<noteq> JNull \<longrightarrow>
        normalizeTask rt (Some j) =
          (let k = (if property j ''type'' = Some (JStr ''log'') then Log else Notify);
               d = property j ''data''
           in case property j ''message'' of
                None \<Rightarrow> Inr \<lparr>kind = k, message = [], data = d\<rparr>
              | Some JNull \<Rightarrow> Inr \<lparr>kind = k, message = [], data = d\<rparr>
              | Some (JStr m) \<Rightarrow> Inr \<lparr>kind = k, message = m, data = d\<rparr>
              | Some other \<Rightarrow>
                  (case String_of rt other of
                     Inl e \<Rightarrow> Inl e
                   | Inr m \<Rightarrow> Inr \<lparr>kind = k, message = m, data = d\<rparr>)))
   \<and> normalizeTask rt None = Inl (property_error rt None ''type'')
   \<and> normalizeTask rt (Some JNull) = Inl (property_error rt (Some JNull) ''type'')"
proof -
  have call: "case normalizeTimerCreateInput rt (now_normalize env) tm of
      Inl e \<Rightarrow> handleRequest rt env ws (ReqTimerCreate tm) s = Throw e s
    | Inr input \<Rightarrow>
        handleRequest rt env ws (ReqTimerCreate tm) s =
          Normal (with_scheduler
            (\<lambda>w. snd (createTimer (fresh_id env) (now_created env) (now_delay env) input w)) s)
        \<and> wire_clean input"
    by (simp add: handleRequest_def normalized_clean split: sum.splits)
  have missing: "normalizeTask rt None = Inl (property_error rt None ''type'')"
    "normalizeTask rt (Some JNull) = Inl (property_error rt (Some JNull) ''type'')"
    by (simp_all add: normalizeTask_def)
  from call missing normalizeTimerCreateInput_eq [of tm rt now] normalizeTask_eq [of j rt]
  show ?thesis by blast
qed

theorem wire_create_normalized_witness:
  "normalizeTimerCreateInput plain_runtime 2000 wire_once =
     Inr (CreateOnce (Fin 2000) \<lparr>kind = Notify, message = ''v'', data = None\<rparr>)
   \<and> wire_clean (CreateOnce (Fin 2000) \<lparr>kind = Notify, message = ''v'', data = None\<rparr>)
   \<and> handleRequest plain_runtime example_readings 1 (ReqTimerCreate wire_once) two_clients =
       Normal (with_scheduler
         (\<lambda>w. snd (createTimer ''c'' 2001 2002
            (CreateOnce (Fin 2000) \<lparr>kind = Notify, message = ''v'', data = None\<rparr>) w))
         two_clients)
   \<and> normalizeTimerCreateInput plain_runtime 2000 wire_timer =
       Inr (CreateInterval (Fin 1000) None \<lparr>kind = Log, message = [], data = None\<rparr>)"
proof -
  have obj: "wire_once \<noteq> JNull" "wire_timer \<noteq> JNull"
    "JObj [(''type'', JStr ''notify''), (''message'', JNum (Fin 5))] \<noteq> JNull"
    "JObj [(''type'', JStr ''log'')] \<noteq> JNull"
    by (simp_all add: wire_once_def wire_timer_def)
  have rd: "now_normalize example_readings = 2000" "fresh_id example_readings = ''c''"
    "now_created example_readings = 2001" "now_delay example_readings = 2002"
    by (simp_all add: example_readings_def)
  have str: "String_of plain_runtime (JNum (Fin 5)) = Inr ''v''"
    by (simp add: plain_runtime_def)
  have task1: "normalizeTask plain_runtime
        (Some (JObj [(''type'', JStr ''notify''), (''message'', JNum (Fin 5))])) =
      Inr \<lparr>kind = Notify, message = ''v'', data = None\<rparr>"
    using wire_create_normalized [where rt = plain_runtime
        and j = "JObj [(''type'', JStr ''notify''), (''message'', JNum (Fin 5))]"] obj str
    by simp
  have task2: "normalizeTask plain_runtime (Some (JObj [(''type'', JStr ''log'')])) =
      Inr \<lparr>kind = Log, message = [], data = None\<rparr>"
    using wire_create_normalized [where rt = plain_runtime
        and j = "JObj [(''type'', JStr ''log'')]"] obj
    by simp
  have once: "normalizeTimerCreateInput plain_runtime 2000 wire_once =
     Inr (CreateOnce (Fin 2000) \<lparr>kind = Notify, message = ''v'', data = None\<rparr>)"
    using wire_create_normalized [where rt = plain_runtime and tm = wire_once and now = 2000]
      obj(1) task1
    by (simp add: wire_once_def ms_def)
  have interval: "normalizeTimerCreateInput plain_runtime 2000 wire_timer =
       Inr (CreateInterval (Fin 1000) None \<lparr>kind = Log, message = [], data = None\<rparr>)"
    using wire_create_normalized [where rt = plain_runtime and tm = wire_timer and now = 2000]
      obj(2) task2
    by (simp add: wire_timer_def)
  show ?thesis
    using wire_create_normalized [where rt = plain_runtime and env = example_readings
        and tm = wire_once and ws = 1 and s = two_clients] once interval rd
    by simp
qed

section \<open>The request correlator: proofs\<close>

lemma settled_stays:
  "p \<noteq> Pending \<Longrightarrow> foldl (waitFor_step rt shown pr) p evs = p"
  by (induction evs) (auto simp: waitFor_step_def split: promise.splits)

lemma messages_distinct:
  "connection_error_message \<noteq> timeout_message shown"
  "connection_closed_message \<noteq> timeout_message shown"
  "connection_error_message \<noteq> connection_closed_message"
  by (simp_all add: connection_error_message_def connection_closed_message_def timeout_message_def)

lemma step_timeout_only:
  "waitFor_step rt shown pr Pending e = Rejected (timeout_message shown) \<Longrightarrow> e = TimerElapsed"
  using messages_distinct(1,2) [of shown]
  by (auto simp: waitFor_step_def split: wait_event.splits option.splits)

lemma run_from_pending:
  "foldl (waitFor_step rt shown pr) Pending evs = Rejected (timeout_message shown) \<Longrightarrow>
   \<exists>pre post. evs = pre @ TimerElapsed # post
      \<and> (\<forall>e\<in>set pre. waitFor_step rt shown pr Pending e = Pending)"
proof (induction evs)
  case Nil
  then show ?case by simp
next
  case (Cons e evs)
  show ?case
  proof (cases "waitFor_step rt shown pr Pending e = Pending")
    case True
    with Cons.prems have "foldl (waitFor_step rt shown pr) Pending evs = Rejected (timeout_message shown)"
      by simp
    from Cons.IH [OF this] obtain pre post where
      "evs = pre @ TimerElapsed # post" "\<forall>x\<in>set pre. waitFor_step rt shown pr Pending x = Pending"
      by blast
    with True have "e # evs = (e # pre) @ TimerElapsed # post
        \<and> (\<forall>x\<in>set (e # pre). waitFor_step rt shown pr Pending x = Pending)"
      by simp
    then show ?thesis by blast
  next
    case False
    with Cons.prems have "waitFor_step rt shown pr Pending e = Rejected (timeout_message shown)"
      by (simp add: settled_stays)
    then have "e = TimerElapsed" by (rule step_timeout_only)
    then have "e # evs = [] @ TimerElapsed # evs" by simp
    then show ?thesis by fastforce
  qed
qed

lemma run_until_settled:
  "\<forall>e\<in>set pre. waitFor_step rt shown pr Pending e = Pending \<Longrightarrow>
   waitFor_step rt shown pr Pending e \<noteq> Pending \<Longrightarrow>
   foldl (waitFor_step rt shown pr) Pending (pre @ e # post) = waitFor_step rt shown pr Pending e"
  by (induction pre) (simp_all add: settled_stays)

lemma step_pending_iff:
  "waitFor_step rt shown pr Pending e = Pending \<longleftrightarrow> unmatched rt pr e"
  by (auto simp: waitFor_step_def unmatched_def split: wait_event.splits option.splits)

text \<open>
  C9. While every earlier event is an unmatched message, an \<open>error\<close> event rejects the
  wait with the connection-error message and a \<open>close\<close> event with the
  connection-closed message, the events after it changing nothing; both messages differ
  from the timeout message (and from each other), whatever \<open>timeoutMs\<close> is; and the wait
  is rejected with the timeout message only if its timer elapsed after unmatched
  messages only.
\<close>

theorem connection_failure_distinct_from_timeout:
  "connection_error_message \<noteq> timeout_message shown
   \<and> connection_closed_message \<noteq> timeout_message shown
   \<and> connection_error_message \<noteq> connection_closed_message
   \<and> ((\<forall>e\<in>set pre. unmatched rt pr e) \<longrightarrow>
        waitFor rt shown pr (pre @ ErrorEvent # post) = Rejected connection_error_message
        \<and> waitFor rt shown pr (pre @ CloseEvent # post) = Rejected connection_closed_message
        \<and> waitFor rt shown pr (pre @ TimerElapsed # post) = Rejected (timeout_message shown))
   \<and> (waitFor rt shown pr evs = Rejected (timeout_message shown) \<longrightarrow>
        (\<exists>before after. evs = before @ TimerElapsed # after
           \<and> (\<forall>e\<in>set before. unmatched rt pr e)))"
proof -
  have now: "(\<forall>e\<in>set pre. unmatched rt pr e) \<longrightarrow>
        waitFor rt shown pr (pre @ ErrorEvent # post) = Rejected connection_error_message
        \<and> waitFor rt shown pr (pre @ CloseEvent # post) = Rejected connection_closed_message
        \<and> waitFor rt shown pr (pre @ TimerElapsed # post) = Rejected (timeout_message shown)"
  proof
    assume "\<forall>e\<in>set pre. unmatched rt pr e"
    then have quiet: "\<forall>e\<in>set pre. waitFor_step rt shown pr Pending e = Pending"
      by (simp add: step_pending_iff)
    have "waitFor rt shown pr (pre @ ErrorEvent # post) =
            waitFor_step rt shown pr Pending ErrorEvent"
      unfolding waitFor_def using quiet by (rule run_until_settled) (simp add: waitFor_step_def)
    moreover have "waitFor rt shown pr (pre @ CloseEvent # post) =
            waitFor_step rt shown pr Pending CloseEvent"
      unfolding waitFor_def using quiet by (rule run_until_settled) (simp add: waitFor_step_def)
    moreover have "waitFor rt shown pr (pre @ TimerElapsed # post) =
            waitFor_step rt shown pr Pending TimerElapsed"
      unfolding waitFor_def using quiet by (rule run_until_settled) (simp add: waitFor_step_def)
    ultimately
    show "waitFor rt shown pr (pre @ ErrorEvent # post) = Rejected connection_error_message
        \<and> waitFor rt shown pr (pre @ CloseEvent # post) = Rejected connection_closed_message
        \<and> waitFor rt shown pr (pre @ TimerElapsed # post) = Rejected (timeout_message shown)"
      by (simp add: waitFor_step_def)
  qed
  have only: "waitFor rt shown pr evs = Rejected (timeout_message shown) \<longrightarrow>
        (\<exists>before after. evs = before @ TimerElapsed # after
           \<and> (\<forall>e\<in>set before. unmatched rt pr e))"
    unfolding waitFor_def using run_from_pending [of rt shown pr evs]
    by (simp add: step_pending_iff)
  from now only messages_distinct(1,2) [of shown] messages_distinct(3) show ?thesis
    by blast
qed

theorem connection_failure_distinct_from_timeout_witness:
  "unmatched plain_runtime Some (MessageEvent ''junk'')
   \<and> waitFor plain_runtime ''2000'' Some [MessageEvent ''junk'', ErrorEvent, TimerElapsed]
       = Rejected connection_error_message
   \<and> waitFor plain_runtime ''2000'' Some [MessageEvent ''junk'', CloseEvent, TimerElapsed]
       = Rejected connection_closed_message
   \<and> waitFor plain_runtime ''2000'' Some [MessageEvent ''junk'', TimerElapsed]
       = Rejected (timeout_message ''2000'')
   \<and> (\<exists>before after. [MessageEvent ''junk'', TimerElapsed] = before @ TimerElapsed # after
         \<and> (\<forall>e\<in>set before. unmatched plain_runtime Some e))"
proof -
  have u: "\<forall>e\<in>set [MessageEvent ''junk'']. unmatched plain_runtime Some e"
    by (simp add: unmatched_def plain_runtime_def)
  from connection_failure_distinct_from_timeout
    [of "''2000''" "[MessageEvent ''junk'']" plain_runtime Some "[TimerElapsed]"
        "[MessageEvent ''junk'', TimerElapsed]"] u
  show ?thesis
    using connection_failure_distinct_from_timeout
      [of "''2000''" "[MessageEvent ''junk'']" plain_runtime Some "[]"
        "[MessageEvent ''junk'', TimerElapsed]"]
    by simp
qed

end
